theory Spec2Isabelle
  imports Main "HOL-Library.Word"
begin

section \<open>Data\<close>

type_synonym int64 = "64 word"

text \<open>
  Go's \<^verbatim>\<open>error\<close> values: \<open>None\<close> of \<open>error option\<close> is \<^verbatim>\<open>nil\<close>.
  \<open>Format reason message\<close> is \<^verbatim>\<open>karma.Format(reason, message)\<close>.
\<close>

datatype error = Err string | Format error string

text \<open>\<^verbatim>\<open>type User struct\<close> of main.go: one document of the collection.\<close>

record User =
  UserID :: int64
  LastMessage :: int64

text \<open>
  The parts of \<^verbatim>\<open>telebot.User\<close>, \<^verbatim>\<open>telebot.Chat\<close>, \<^verbatim>\<open>telebot.Message\<close> and
  \<^verbatim>\<open>telebot.Update\<close> that the program reads. A nil pointer is \<open>None\<close>. The field
  \<^verbatim>\<open>ID\<close> of \<^verbatim>\<open>telebot.Chat\<close> is written \<open>ChatID\<close>, as \<open>ID\<close> names the field of
  \<^verbatim>\<open>telebot.User\<close>.
\<close>

record telebot_User =
  ID :: int64

record Chat =
  ChatID :: int64
  Username :: string
  FirstName :: string
  LastName :: string

record Message =
  Text :: string
  Sender :: "telebot_User option"
  UserLeft :: "telebot_User option"
  UserJoined :: "telebot_User option"

record Update =
  Message :: "Message option"

text \<open>
  \<^verbatim>\<open>type Watcher struct\<close>: the chat and the duration are data; \<^verbatim>\<open>bot\<close> and \<^verbatim>\<open>store\<close>
  are handles on the two outside collaborators, whose behaviour is \<open>Env\<close> and whose
  state is \<open>World\<close> below.
\<close>

record Watcher =
  chat :: Chat
  duration :: int64

section \<open>The outside world\<close>

text \<open>Lines written through \<^verbatim>\<open>log.Infof\<close>, \<^verbatim>\<open>log.Errorf\<close> and \<^verbatim>\<open>log.Fatalf\<close>.\<close>

datatype level = INFO | ERROR | FATAL

record entry =
  level :: level
  cause :: "error option"
  format :: string
  args :: "int64 list"

text \<open>
  The selector documents the program builds: \<^verbatim>\<open>bson.M{}\<close>,
  \<^verbatim>\<open>bson.M{"user_id": v}\<close>, \<^verbatim>\<open>bson.M{"last_message": bson.M{"$gt": v}}\<close> and
  \<^verbatim>\<open>bson.M{"last_message": bson.M{"$lt": v}}\<close>.
\<close>

datatype selector =
  bson_all
  | user_id_is int64
  | last_message_gt int64
  | last_message_lt int64

text \<open>The calls the program makes on the collection, in the order it makes them.\<close>

datatype store_call =
  Find_Count_call selector
  | Find_All_call selector
  | Find_Sort_All_call selector
  | Upsert_call selector int64 int64
  | Remove_call selector

text \<open>
  The requests the program sends through the bot: \<^verbatim>\<open>bot.Raw(method, params)\<close> with
  the parameter map as the list of its entries, \<^verbatim>\<open>bot.ChatByID\<close>, \<^verbatim>\<open>bot.Send\<close> of
  a text and \<^verbatim>\<open>bot.SetCommands\<close>.
\<close>

datatype request =
  Raw_call string "(string \<times> string) list"
  | ChatByID_call int64
  | Send_call "telebot_User option" string
  | SetCommands_call "(string \<times> string) list"

text \<open>
  What a request comes back with: the error (if any), the body (read by \<^verbatim>\<open>Raw\<close>)
  and the profile (read by \<^verbatim>\<open>ChatByID\<close>).
\<close>

record reply =
  err :: "error option"
  data :: string
  profile :: Chat

text \<open>
  Everything the program cannot decide itself. The \<open>n\<close>-th reading of the clock, in
  nanoseconds since the epoch; whether the \<open>n\<close>-th call on the collection fails; the
  platform's reply to a request, which may depend on the requests sent before it;
  \<^verbatim>\<open>json.Unmarshal\<close> into the \<^verbatim>\<open>migrations\<close> struct, giving \<open>None\<close> for an error and
  the decoded \<^verbatim>\<open>Parameters.MigrateToChatID\<close> otherwise (zero when the field is
  absent); and \<^verbatim>\<open>time.Duration.String\<close>.
\<close>

record Env =
  time_Now_at :: "nat \<Rightarrow> int"
  store_failure :: "nat \<Rightarrow> error option"
  platform :: "request list \<Rightarrow> request \<Rightarrow> reply"
  json_Unmarshal :: "string \<Rightarrow> int64 option"
  Duration_String :: "int64 \<Rightarrow> string"

text \<open>
  The state the program acts on: the documents of the collection, the calls made on
  it, the requests sent to the platform, the log and the number of clock readings.
\<close>

record World =
  docs :: "User list"
  store_calls :: "store_call list"
  sent :: "request list"
  logs :: "entry list"
  ticks :: nat

text \<open>\<^verbatim>\<open>log.Fatalf\<close> ends the process; a loop body otherwise goes on.\<close>

datatype flow = Exited World | Continue World

fun world_of :: "flow \<Rightarrow> World" where
  "world_of (Exited w) = w"
| "world_of (Continue w) = w"

section \<open>Library functions\<close>

subsection \<open>strconv and fmt\<close>

definition digit :: "nat \<Rightarrow> char" where
  "digit n = ''0123456789'' ! n"

fun digits :: "nat \<Rightarrow> string" where
  "digits n = (if n < 10 then [digit n] else digits (n div 10) @ [digit (n mod 10)])"

declare digits.simps [simp del]

text \<open>\<^verbatim>\<open>strconv.FormatInt(i, 10)\<close>; \<^verbatim>\<open>fmt.Sprint\<close> of an \<^verbatim>\<open>int64\<close> prints the same.\<close>

definition FormatInt :: "int64 \<Rightarrow> string" where
  "FormatInt i =
     (if sint i < 0 then CHR ''-'' # digits (nat (- sint i)) else digits (nat (sint i)))"

definition Sprint :: "int64 \<Rightarrow> string" where
  "Sprint i = FormatInt i"

text \<open>\<^verbatim>\<open>(*telebot.Chat).Recipient\<close>: the chat id in decimal.\<close>

definition Recipient :: "Chat \<Rightarrow> string" where
  "Recipient c = FormatInt (ChatID c)"

subsection \<open>time\<close>

text \<open>
  A \<^verbatim>\<open>time.Time\<close> is its number of nanoseconds since the epoch, a
  \<^verbatim>\<open>time.Duration\<close> an \<^verbatim>\<open>int64\<close> of nanoseconds. \<^verbatim>\<open>Sub\<close> saturates.
\<close>

type_synonym Time = int

definition Add :: "Time \<Rightarrow> int64 \<Rightarrow> Time" where
  "Add t d = t + sint d"

definition Unix :: "Time \<Rightarrow> int64" where
  "Unix t = word_of_int (t div 1000000000)"

definition time_Unix :: "int64 \<Rightarrow> Time" where
  "time_Unix sec = sint sec * 1000000000"

definition Sub :: "Time \<Rightarrow> Time \<Rightarrow> int64" where
  "Sub t u =
     (let d = t - u
      in if d < - (2 ^ 63) then word_of_int (- (2 ^ 63))
         else if 2 ^ 63 - 1 < d then word_of_int (2 ^ 63 - 1)
         else word_of_int d)"

definition time_Now :: "Env \<Rightarrow> World \<Rightarrow> Time \<times> World" where
  "time_Now env w = (time_Now_at env (ticks w), w\<lparr>ticks := Suc (ticks w)\<rparr>)"

text \<open>\<^verbatim>\<open>time.Hour\<close>, in nanoseconds.\<close>

definition Hour :: int64 where
  "Hour = 3600000000000"

text \<open>
  \<^verbatim>\<open>telebot.Forever()\<close>, which the library computes from the clock at each call:
  \<^verbatim>\<open>time.Now().Add(367 * 24 * time.Hour).Unix()\<close>.
\<close>

definition Forever :: "Env \<Rightarrow> World \<Rightarrow> int64 \<times> World" where
  "Forever env w =
     (let (now, w') = time_Now env w
      in (Unix (Add now (367 * 24 * Hour)), w'))"

subsection \<open>log\<close>

definition Infof :: "string \<Rightarrow> int64 list \<Rightarrow> World \<Rightarrow> World" where
  "Infof f xs w =
     w\<lparr>logs := logs w @ [\<lparr>level = INFO, cause = None, format = f, args = xs\<rparr>]\<rparr>"

definition Errorf :: "error \<Rightarrow> string \<Rightarrow> int64 list \<Rightarrow> World \<Rightarrow> World" where
  "Errorf e f xs w =
     w\<lparr>logs := logs w @ [\<lparr>level = ERROR, cause = Some e, format = f, args = xs\<rparr>]\<rparr>"

definition Fatalf :: "error \<Rightarrow> string \<Rightarrow> int64 list \<Rightarrow> World \<Rightarrow> World" where
  "Fatalf e f xs w =
     w\<lparr>logs := logs w @ [\<lparr>level = FATAL, cause = Some e, format = f, args = xs\<rparr>]\<rparr>"

subsection \<open>strings\<close>

text \<open>\<^verbatim>\<open>strings.Join(elems, sep)\<close>.\<close>

fun Join :: "string list \<Rightarrow> string \<Rightarrow> string" where
  "Join [] sep = []"
| "Join [x] sep = x"
| "Join (x # y # zs) sep = x @ sep @ Join (y # zs) sep"

subsection \<open>The bot\<close>

definition send_request :: "Env \<Rightarrow> request \<Rightarrow> World \<Rightarrow> reply \<times> World" where
  "send_request env r w = (platform env (sent w) r, w\<lparr>sent := sent w @ [r]\<rparr>)"

definition Raw ::
  "Env \<Rightarrow> string \<Rightarrow> (string \<times> string) list \<Rightarrow> World \<Rightarrow> (string \<times> error option) \<times> World"
where
  "Raw env method params w =
     (let (r, w') = send_request env (Raw_call method params) w
      in ((data r, err r), w'))"

definition ChatByID :: "Env \<Rightarrow> int64 \<Rightarrow> World \<Rightarrow> (Chat \<times> error option) \<times> World" where
  "ChatByID env i w =
     (let (r, w') = send_request env (ChatByID_call i) w
      in ((profile r, err r), w'))"

definition Send :: "Env \<Rightarrow> telebot_User option \<Rightarrow> string \<Rightarrow> World \<Rightarrow> error option \<times> World" where
  "Send env to what w =
     (let (r, w') = send_request env (Send_call to what) w
      in (err r, w'))"

definition SetCommands :: "Env \<Rightarrow> (string \<times> string) list \<Rightarrow> World \<Rightarrow> error option \<times> World" where
  "SetCommands env cmds w =
     (let (r, w') = send_request env (SetCommands_call cmds) w
      in (err r, w'))"

subsection \<open>The collection\<close>

text \<open>
  A document matches a selector as MongoDB reads the operators the program writes:
  equality on \<^verbatim>\<open>user_id\<close>, \<^verbatim>\<open>$gt\<close> strictly greater and \<^verbatim>\<open>$lt\<close> strictly less on
  \<^verbatim>\<open>last_message\<close>, as signed 64-bit integers.
\<close>

fun matches :: "selector \<Rightarrow> User \<Rightarrow> bool" where
  "matches bson_all d = True"
| "matches (user_id_is v) d = (UserID d = v)"
| "matches (last_message_gt v) d = (sint v < sint (LastMessage d))"
| "matches (last_message_lt v) d = (sint (LastMessage d) < sint v)"

text \<open>
  Every call on the collection is recorded, and fails without effect when the
  environment says so.
\<close>

definition collection_call :: "Env \<Rightarrow> store_call \<Rightarrow> World \<Rightarrow> error option \<times> World" where
  "collection_call env c w =
     (store_failure env (length (store_calls w)), w\<lparr>store_calls := store_calls w @ [c]\<rparr>)"

text \<open>\<^verbatim>\<open>store.Find(sel).Count()\<close>\<close>

definition Find_Count :: "Env \<Rightarrow> selector \<Rightarrow> World \<Rightarrow> (error + nat) \<times> World" where
  "Find_Count env sel w =
     (let (failure, w') = collection_call env (Find_Count_call sel) w
      in case failure of
           Some e \<Rightarrow> (Inl e, w')
         | None \<Rightarrow> (Inr (length (filter (matches sel) (docs w'))), w'))"

text \<open>\<^verbatim>\<open>store.Find(sel).All(&users)\<close>\<close>

definition Find_All :: "Env \<Rightarrow> selector \<Rightarrow> World \<Rightarrow> (error + User list) \<times> World" where
  "Find_All env sel w =
     (let (failure, w') = collection_call env (Find_All_call sel) w
      in case failure of
           Some e \<Rightarrow> (Inl e, w')
         | None \<Rightarrow> (Inr (filter (matches sel) (docs w')), w'))"

text \<open>\<^verbatim>\<open>store.Find(sel).Sort("last_message").All(&users)\<close>\<close>

definition Find_Sort_All :: "Env \<Rightarrow> selector \<Rightarrow> World \<Rightarrow> (error + User list) \<times> World" where
  "Find_Sort_All env sel w =
     (let (failure, w') = collection_call env (Find_Sort_All_call sel) w
      in case failure of
           Some e \<Rightarrow> (Inl e, w')
         | None \<Rightarrow>
             (Inr (sort_key (\<lambda>d. sint (LastMessage d)) (filter (matches sel) (docs w'))), w'))"

text \<open>
  \<^verbatim>\<open>store.Upsert(sel, bson.M{"$set": bson.M{"user_id": user, "last_message": now}})\<close>:
  the first matching document gets both fields set; when none matches, the document
  with these two fields is inserted.
\<close>

fun upsert_set :: "selector \<Rightarrow> User \<Rightarrow> User list \<Rightarrow> User list" where
  "upsert_set sel new [] = [new]"
| "upsert_set sel new (d # ds) =
     (if matches sel d then new # ds else d # upsert_set sel new ds)"

definition Upsert :: "Env \<Rightarrow> selector \<Rightarrow> int64 \<Rightarrow> int64 \<Rightarrow> World \<Rightarrow> error option \<times> World" where
  "Upsert env sel user now w =
     (let (failure, w') = collection_call env (Upsert_call sel user now) w
      in case failure of
           Some e \<Rightarrow> (Some e, w')
         | None \<Rightarrow>
             (None, w'\<lparr>docs := upsert_set sel \<lparr>UserID = user, LastMessage = now\<rparr> (docs w')\<rparr>))"

text \<open>
  \<^verbatim>\<open>store.Remove(sel)\<close>, as \<^verbatim>\<open>(*mgo.Collection).Remove\<close> of the library does it on
  a session in safe mode, which \<^verbatim>\<open>mgo.Dial\<close> gives and the program never changes:
  the first matching document is removed, and when no document matches the call
  returns \<^verbatim>\<open>mgo.ErrNotFound\<close>, the error \<^verbatim>\<open>errors.New("not found")\<close>.
\<close>

definition ErrNotFound :: error where
  "ErrNotFound = Err ''not found''"

fun remove_first :: "selector \<Rightarrow> User list \<Rightarrow> User list" where
  "remove_first sel [] = []"
| "remove_first sel (d # ds) = (if matches sel d then ds else d # remove_first sel ds)"

definition Remove :: "Env \<Rightarrow> selector \<Rightarrow> World \<Rightarrow> error option \<times> World" where
  "Remove env sel w =
     (let (failure, w') = collection_call env (Remove_call sel) w
      in case failure of
           Some e \<Rightarrow> (Some e, w')
         | None \<Rightarrow>
             if filter (matches sel) (docs w') = [] then (Some ErrNotFound, w')
             else (None, w'\<lparr>docs := remove_first sel (docs w')\<rparr>))"

section \<open>The activity recorder\<close>

text \<open>\<^verbatim>\<open>func (watcher *Watcher) updateLastMessage(user int64) error\<close>\<close>

definition updateLastMessage :: "Env \<Rightarrow> int64 \<Rightarrow> World \<Rightarrow> error option \<times> World" where
  "updateLastMessage env user w =
     (let (t, w1) = time_Now env w;
          now = Unix t;
          w2 = Infof ''update user: %v now: %v'' [user, now] w1;
          (failure, w3) = Upsert env (user_id_is user) user now w2
      in case failure of
           Some e \<Rightarrow> (Some (Format e ''update user''), w3)
         | None \<Rightarrow> (None, w3))"

text \<open>
  \<^verbatim>\<open>func (watcher *Watcher) listTimestamps() (string, error)\<close>: the loop over the
  users, then the function.
\<close>

fun listTimestamps_entries ::
  "Env \<Rightarrow> User list \<Rightarrow> string list \<Rightarrow> World \<Rightarrow> string list \<times> World"
where
  "listTimestamps_entries env [] entries w = (entries, w)"
| "listTimestamps_entries env (user # users) entries w =
     (let ((c, failure), w1) = ChatByID env (UserID user) w
      in case failure of
           Some e \<Rightarrow>
             listTimestamps_entries env users entries
               (Errorf e ''chat by id: %v'' [UserID user] w1)
         | None \<Rightarrow>
             (let timestamp = time_Unix (LastMessage user);
                  (now, w2) = time_Now env w1
              in listTimestamps_entries env users
                   (entries @
                      [''@'' @ Username c @ '' '' @ FirstName c @ '' '' @ LastName c @ '' '' @
                       Duration_String env (Sub now timestamp)])
                   w2))"

definition listTimestamps :: "Env \<Rightarrow> World \<Rightarrow> (error + string) \<times> World" where
  "listTimestamps env w =
     (let (r, w1) = Find_Sort_All env bson_all w
      in case r of
           Inl e \<Rightarrow> (Inl e, w1)
         | Inr users \<Rightarrow>
             (let (entries, w2) = listTimestamps_entries env users [] w1
              in (Inr (Join entries [CHR 0x0A]), w2)))"

text \<open>\<^verbatim>\<open>func (watcher *Watcher) handle(update telebot.Update) error\<close> of main.go.\<close>

definition handle :: "Env \<Rightarrow> Update \<Rightarrow> World \<Rightarrow> error option \<times> World" where
  "handle env update w =
     (case Message update of
        None \<Rightarrow> (None, w)
      | Some m \<Rightarrow>
          if Text m = ''/when'' \<or> Text m = ''q'' then
            (let (r, w1) = listTimestamps env w
             in case r of
                  Inl e \<Rightarrow> (Some e, w1)
                | Inr entries \<Rightarrow> Send env (Sender m) entries w1)
          else
            (case UserLeft m of
               Some left \<Rightarrow>
                 (let w1 = Infof ''remove user: %v now: %v'' [ID left] w;
                      (failure, w2) = Remove env (user_id_is (ID left)) w1
                  in case failure of
                       Some e \<Rightarrow> (Some (Format e ''remove user''), w2)
                     | None \<Rightarrow> (None, w2))
             | None \<Rightarrow>
                 (case UserJoined m of
                    Some joined \<Rightarrow> updateLastMessage env (ID joined) w
                  | None \<Rightarrow>
                      (case Sender m of
                         None \<Rightarrow> (None, w)
                       | Some sender \<Rightarrow> updateLastMessage env (ID sender) w))))"

text \<open>
  The \<^verbatim>\<open>handle\<close> of the second copy of the program in the repository: it has
  no branch for the two commands and is otherwise the same.
\<close>

definition handle_part_000 :: "Env \<Rightarrow> Update \<Rightarrow> World \<Rightarrow> error option \<times> World" where
  "handle_part_000 env update w =
     (case Message update of
        None \<Rightarrow> (None, w)
      | Some m \<Rightarrow>
          (case UserLeft m of
             Some left \<Rightarrow>
               (let w1 = Infof ''remove user: %v now: %v'' [ID left] w;
                    (failure, w2) = Remove env (user_id_is (ID left)) w1
                in case failure of
                     Some e \<Rightarrow> (Some (Format e ''remove user''), w2)
                   | None \<Rightarrow> (None, w2))
           | None \<Rightarrow>
               (case UserJoined m of
                  Some joined \<Rightarrow> updateLastMessage env (ID joined) w
                | None \<Rightarrow>
                    (case Sender m of
                       None \<Rightarrow> (None, w)
                     | Some sender \<Rightarrow> updateLastMessage env (ID sender) w))))"

text \<open>
  \<^verbatim>\<open>func (watcher *Watcher) Record()\<close>: the updates the poller delivers until the
  channel closes are a list. The loop body is the statement
  \<^verbatim>\<open>watcher.handle(update)\<close>: what \<open>handle\<close> returns is dropped.
\<close>

fun Record_loop :: "Env \<Rightarrow> Update list \<Rightarrow> World \<Rightarrow> World" where
  "Record_loop env [] w = w"
| "Record_loop env (update # updates) w =
     (let (_, w') = handle env update w in Record_loop env updates w')"

definition Record :: "Env \<Rightarrow> Update list \<Rightarrow> World \<Rightarrow> flow" where
  "Record env updates w =
     (let (failure, w1) =
            SetCommands env
              [(''/when'',
                ''Show the list of users and number of hours since their last message'')]
              w
      in case failure of
           Some e \<Rightarrow> Exited (Fatalf e ''set commands'' [] w1)
         | None \<Rightarrow> Continue (Infof ''telekick started'' [] (Record_loop env updates w1)))"

section \<open>The removal action\<close>

text \<open>
  \<^verbatim>\<open>func (watcher *Watcher) ban(user int64) error\<close>. Each of the two parameter
  maps calls \<^verbatim>\<open>telebot.Forever()\<close> when it is built. When the first request fails,
  the body decodes and \<^verbatim>\<open>MigrateToChatID\<close> is zero, control leaves the
  \<^verbatim>\<open>if banErr != nil\<close> block and reaches the final \<^verbatim>\<open>return nil\<close>.
\<close>

definition ban :: "Env \<Rightarrow> Watcher \<Rightarrow> int64 \<Rightarrow> World \<Rightarrow> error option \<times> World" where
  "ban env watcher user w =
     (let (forever, w0) = Forever env w;
          params =
            [(''chat_id'', Recipient (chat watcher)),
             (''user_id'', FormatInt user),
             (''until_date'', FormatInt forever)];
          ((body, banErr), w1) = Raw env ''banChatMember'' params w0
      in case banErr of
           None \<Rightarrow> (None, w1)
         | Some e \<Rightarrow>
             (case json_Unmarshal env body of
                None \<Rightarrow> (Some e, w1)
              | Some MigrateToChatID \<Rightarrow>
                  if MigrateToChatID \<noteq> 0 then
                    (let (forever', w2) = Forever env w1;
                         params' =
                           [(''chat_id'', Sprint MigrateToChatID),
                            (''user_id'', FormatInt user),
                            (''until_date'', FormatInt forever')];
                         ((_, banErr'), w3) = Raw env ''banChatMember'' params' w2
                     in (banErr', w3))
                  else (None, w1)))"

section \<open>The eviction scanner\<close>

text \<open>The \<^verbatim>\<open>for _, user := range users\<close> loop of \<^verbatim>\<open>WatchKick\<close>.\<close>

fun kick :: "Env \<Rightarrow> Watcher \<Rightarrow> User list \<Rightarrow> World \<Rightarrow> World" where
  "kick env watcher [] w = w"
| "kick env watcher (user # users) w =
     (let w1 = Infof ''kick %v'' [UserID user] w;
          (failure, w2) = ban env watcher (UserID user) w1
      in case failure of
           Some e \<Rightarrow> kick env watcher users (Errorf e ''ban %v'' [UserID user] w2)
         | None \<Rightarrow> kick env watcher users w2)"

text \<open>\<^verbatim>\<open>time.Now().Add(watcher.duration * -1).Unix()\<close>\<close>

definition threshold :: "Watcher \<Rightarrow> Time \<Rightarrow> int64" where
  "threshold watcher now = Unix (Add now (duration watcher * (- 1)))"

text \<open>
  One turn of the \<^verbatim>\<open>for\<close> loop of \<^verbatim>\<open>WatchKick\<close>. The error of the second query is
  assigned to \<^verbatim>\<open>err\<close> and never read; \<^verbatim>\<open>users\<close> is then the nil slice.
  \<^verbatim>\<open>time.Sleep\<close> changes nothing of the state.
\<close>

definition cycle :: "Env \<Rightarrow> Watcher \<Rightarrow> World \<Rightarrow> flow" where
  "cycle env watcher w =
     (let (now, w1) = time_Now env w;
          (r, w2) = Find_Count env (last_message_gt (threshold watcher now)) w1
      in case r of
           Inl e \<Rightarrow> Exited (Fatalf e ''find messages'' [] w2)
         | Inr since \<Rightarrow>
             if since = 0 then
               Continue (Infof ''no messages since %v'' [duration watcher] w2)
             else
               (let (now', w3) = time_Now env w2;
                    (r', w4) = Find_All env (last_message_lt (threshold watcher now')) w3;
                    users = (case r' of Inl _ \<Rightarrow> [] | Inr found \<Rightarrow> found)
                in Continue (kick env watcher users w4)))"

text \<open>
  \<^verbatim>\<open>func (watcher *Watcher) WatchKick()\<close>: the loop has no exit but
  \<^verbatim>\<open>log.Fatalf\<close>; \<open>WatchKick n\<close> is its first \<open>n\<close> turns.
\<close>

fun WatchKick :: "nat \<Rightarrow> Env \<Rightarrow> Watcher \<Rightarrow> World \<Rightarrow> flow" where
  "WatchKick 0 env watcher w = Continue w"
| "WatchKick (Suc n) env watcher w =
     (case cycle env watcher w of
        Exited w' \<Rightarrow> Exited w'
      | Continue w' \<Rightarrow> WatchKick n env watcher w')"

section \<open>Evaluating the decimal printer\<close>

lemma digits_base: "n < 10 \<Longrightarrow> digits n = [digit n]"
  by (simp add: digits.simps)

lemma digits_step: "10 \<le> n \<Longrightarrow> digits n = digits (n div 10) @ [digit (n mod 10)]"
  by (subst digits.simps) simp

lemmas FormatInt_eval = FormatInt_def digits_base digits_step digit_def

section \<open>Properties of the removal action\<close>

lemma ban_docs: "docs (snd (ban env watcher user w)) = docs w"
  by (simp add: ban_def Forever_def time_Now_def Raw_def send_request_def Let_def
      split: option.splits)

text \<open>
  C1. The first ban request fails with "not enough rights"; its body decodes and
  carries no migration directive (\<^verbatim>\<open>MigrateToChatID\<close> is zero). The specification has the
  removal action return that failure; \<open>ban\<close> returns \<^verbatim>\<open>nil\<close>, after the one request.
\<close>

theorem ban_no_migration_returns_nil:
  "ban
     \<lparr>time_Now_at = (\<lambda>n. 0), store_failure = (\<lambda>n. None),
      platform = (\<lambda>h r. \<lparr>err = Some (Err ''Bad Request: not enough rights''),
                         data = ''not enough rights'',
                         profile = \<lparr>ChatID = 0, Username = [], FirstName = [], LastName = []\<rparr>\<rparr>),
      json_Unmarshal = (\<lambda>body. Some 0),
      Duration_String = (\<lambda>d. [])\<rparr>
     \<lparr>chat = \<lparr>ChatID = 42, Username = [], FirstName = [], LastName = []\<rparr>, duration = 0\<rparr>
     7
     \<lparr>docs = [], store_calls = [], sent = [], logs = [], ticks = 0\<rparr>
   = (None,
      \<lparr>docs = [], store_calls = [],
       sent = [Raw_call ''banChatMember''
                 [(''chat_id'', ''42''), (''user_id'', ''7''), (''until_date'', ''31708800'')]],
       logs = [], ticks = 1\<rparr>)"
  by (simp add: ban_def Forever_def time_Now_def Unix_def Add_def Hour_def Raw_def
      send_request_def Recipient_def FormatInt_eval)

text \<open>
  C2, as amended. When the first ban request fails and its body decodes to a
  non-zero \<^verbatim>\<open>MigrateToChatID\<close> \<open>X\<close>, the removal action sends exactly one more
  request and returns what that request returns. The retry has the chat id \<open>X\<close>,
  the same member id, and the value \<^verbatim>\<open>telebot.Forever()\<close> gives when it is called
  again for the retry: 367 days after the clock reading taken then.
\<close>

theorem ban_migration_retries_once:
  "let forever = Unix (Add (time_Now_at env (ticks w)) (367 * 24 * Hour));
       forever' = Unix (Add (time_Now_at env (Suc (ticks w))) (367 * 24 * Hour));
       first = Raw_call ''banChatMember''
                 [(''chat_id'', Recipient (chat watcher)),
                  (''user_id'', FormatInt user),
                  (''until_date'', FormatInt forever)];
       retry = Raw_call ''banChatMember''
                 [(''chat_id'', FormatInt X),
                  (''user_id'', FormatInt user),
                  (''until_date'', FormatInt forever')]
   in err (platform env (sent w) first) = Some e \<and>
      json_Unmarshal env (data (platform env (sent w) first)) = Some X \<and>
      X \<noteq> 0 \<longrightarrow>
      ban env watcher user w =
        (err (platform env (sent w @ [first]) retry),
         w\<lparr>ticks := Suc (Suc (ticks w)), sent := sent w @ [first, retry]\<rparr>)"
  by (simp add: ban_def Forever_def time_Now_def Raw_def send_request_def Sprint_def Let_def)

theorem ban_migration_retries_once_witness:
  "ban
     \<lparr>time_Now_at = (\<lambda>n. 0), store_failure = (\<lambda>n. None),
      platform = (\<lambda>h r. if h = []
                   then \<lparr>err = Some (Err ''group chat was upgraded to a supergroup chat''),
                         data = ''migrate_to_chat_id 999'',
                         profile = \<lparr>ChatID = 0, Username = [], FirstName = [], LastName = []\<rparr>\<rparr>
                   else \<lparr>err = Some (Err ''user is an administrator of the chat''),
                         data = [],
                         profile = \<lparr>ChatID = 0, Username = [], FirstName = [], LastName = []\<rparr>\<rparr>),
      json_Unmarshal = (\<lambda>body. if body = ''migrate_to_chat_id 999'' then Some 999 else None),
      Duration_String = (\<lambda>d. [])\<rparr>
     \<lparr>chat = \<lparr>ChatID = 42, Username = [], FirstName = [], LastName = []\<rparr>, duration = 0\<rparr>
     7
     \<lparr>docs = [], store_calls = [], sent = [], logs = [], ticks = 0\<rparr>
   = (Some (Err ''user is an administrator of the chat''),
      \<lparr>docs = [], store_calls = [],
       sent = [Raw_call ''banChatMember''
                 [(''chat_id'', ''42''), (''user_id'', ''7''), (''until_date'', ''31708800'')],
               Raw_call ''banChatMember''
                 [(''chat_id'', ''999''), (''user_id'', ''7''), (''until_date'', ''31708800'')]],
       logs = [], ticks = 2\<rparr>)"
proof -
  have f: "FormatInt 42 = ''42''" "FormatInt 7 = ''7''" "FormatInt 999 = ''999''"
    "FormatInt 31708800 = ''31708800''"
    by (simp_all add: FormatInt_eval)
  show ?thesis
    using ban_migration_retries_once
      [of "\<lparr>time_Now_at = (\<lambda>n. 0), store_failure = (\<lambda>n. None),
        platform = (\<lambda>h r. if h = []
                     then \<lparr>err = Some (Err ''group chat was upgraded to a supergroup chat''),
                           data = ''migrate_to_chat_id 999'',
                           profile = \<lparr>ChatID = 0, Username = [], FirstName = [], LastName = []\<rparr>\<rparr>
                     else \<lparr>err = Some (Err ''user is an administrator of the chat''),
                           data = [],
                           profile = \<lparr>ChatID = 0, Username = [], FirstName = [], LastName = []\<rparr>\<rparr>),
        json_Unmarshal = (\<lambda>body. if body = ''migrate_to_chat_id 999'' then Some 999 else None),
        Duration_String = (\<lambda>d. [])\<rparr>"
       "\<lparr>docs = [], store_calls = [], sent = [], logs = [], ticks = 0\<rparr>"
       "\<lparr>chat = \<lparr>ChatID = 42, Username = [], FirstName = [], LastName = []\<rparr>, duration = 0\<rparr>"
       7 999 "Err ''group chat was upgraded to a supergroup chat''"]
    by (simp add: Let_def Recipient_def Unix_def Add_def Hour_def f)
qed

text \<open>
  C2, as stated, fails. The first request is built at 100.9 seconds and the retry
  at 101.1 seconds, after the round trip of the first: \<^verbatim>\<open>telebot.Forever()\<close> is
  called again for the retry, and the retry's \<^verbatim>\<open>until_date\<close> is 31708901 where the
  first request had 31708900.
\<close>

theorem ban_retry_has_later_until_date:
  "ban
     \<lparr>time_Now_at = (\<lambda>n. if n = 0 then 100900000000 else 101100000000),
      store_failure = (\<lambda>n. None),
      platform = (\<lambda>h r. if h = []
                   then \<lparr>err = Some (Err ''group chat was upgraded to a supergroup chat''),
                         data = ''migrate_to_chat_id 999'',
                         profile = \<lparr>ChatID = 0, Username = [], FirstName = [], LastName = []\<rparr>\<rparr>
                   else \<lparr>err = None, data = [],
                         profile = \<lparr>ChatID = 0, Username = [], FirstName = [], LastName = []\<rparr>\<rparr>),
      json_Unmarshal = (\<lambda>body. if body = ''migrate_to_chat_id 999'' then Some 999 else None),
      Duration_String = (\<lambda>d. [])\<rparr>
     \<lparr>chat = \<lparr>ChatID = 42, Username = [], FirstName = [], LastName = []\<rparr>, duration = 0\<rparr>
     7
     \<lparr>docs = [], store_calls = [], sent = [], logs = [], ticks = 0\<rparr>
   = (None,
      \<lparr>docs = [], store_calls = [],
       sent = [Raw_call ''banChatMember''
                 [(''chat_id'', ''42''), (''user_id'', ''7''), (''until_date'', ''31708900'')],
               Raw_call ''banChatMember''
                 [(''chat_id'', ''999''), (''user_id'', ''7''), (''until_date'', ''31708901'')]],
       logs = [], ticks = 2\<rparr>)"
  by (simp add: ban_def Forever_def time_Now_def Unix_def Add_def Hour_def Raw_def
      send_request_def Recipient_def Sprint_def FormatInt_eval)

section \<open>Properties of the eviction scanner\<close>

lemma matches_gt: "matches (last_message_gt v) = (\<lambda>d. sint v < sint (LastMessage d))"
  by (rule ext) simp

lemma Find_All_world:
  "snd (Find_All env sel w) = w\<lparr>store_calls := store_calls w @ [Find_All_call sel]\<rparr>"
  by (simp add: Find_All_def collection_call_def split: option.splits)

lemma Find_Count_world:
  "snd (Find_Count env sel w) = w\<lparr>store_calls := store_calls w @ [Find_Count_call sel]\<rparr>"
  by (simp add: Find_Count_def collection_call_def split: option.splits)

lemma ban_store_calls: "store_calls (snd (ban env watcher user w)) = store_calls w"
  by (simp add: ban_def Forever_def time_Now_def Raw_def send_request_def Let_def
      split: option.splits)

lemma ban_ticks: "ticks w \<le> ticks (snd (ban env watcher user w))"
  by (simp add: ban_def Forever_def time_Now_def Raw_def send_request_def Let_def
      split: option.splits)

lemma ban_first_request:
  "\<exists>rest. sent (snd (ban env watcher user w)) =
     sent w @
       Raw_call ''banChatMember''
         [(''chat_id'', Recipient (chat watcher)),
          (''user_id'', FormatInt user),
          (''until_date'',
           FormatInt (Unix (Add (time_Now_at env (ticks w)) (367 * 24 * Hour))))] # rest"
  by (simp add: ban_def Forever_def time_Now_def Raw_def send_request_def Let_def
      split: option.splits)

lemma kick_docs: "docs (kick env watcher users w) = docs w"
proof (induction users arbitrary: w)
  case Nil
  show ?case by simp
next
  case (Cons u us)
  obtain f w2 where b: "ban env watcher (UserID u) (Infof ''kick %v'' [UserID u] w) = (f, w2)"
    by (cases "ban env watcher (UserID u) (Infof ''kick %v'' [UserID u] w)")
  have "docs w2 = docs w"
    using ban_docs [of env watcher "UserID u" "Infof ''kick %v'' [UserID u] w"] b
    by (simp add: Infof_def)
  then show ?case
    using Cons.IH b by (cases f) (simp_all add: Errorf_def)
qed

lemma kick_store_calls: "store_calls (kick env watcher users w) = store_calls w"
proof (induction users arbitrary: w)
  case Nil
  show ?case by simp
next
  case (Cons u us)
  obtain f w2 where b: "ban env watcher (UserID u) (Infof ''kick %v'' [UserID u] w) = (f, w2)"
    by (cases "ban env watcher (UserID u) (Infof ''kick %v'' [UserID u] w)")
  have "store_calls w2 = store_calls w"
    using ban_store_calls [of env watcher "UserID u" "Infof ''kick %v'' [UserID u] w"] b
    by (simp add: Infof_def)
  then show ?case
    using Cons.IH b by (cases f) (simp_all add: Errorf_def)
qed

lemma kick_sent_extends: "\<exists>rest. sent (kick env watcher users w) = sent w @ rest"
proof (induction users arbitrary: w)
  case Nil
  show ?case by simp
next
  case (Cons u us)
  obtain f w2 where b: "ban env watcher (UserID u) (Infof ''kick %v'' [UserID u] w) = (f, w2)"
    by (cases "ban env watcher (UserID u) (Infof ''kick %v'' [UserID u] w)")
  obtain r1 where r1: "sent w2 = sent w @ r1"
    using ban_first_request [of env watcher "UserID u" "Infof ''kick %v'' [UserID u] w"] b
    by (auto simp: Infof_def)
  show ?case
  proof (cases f)
    case None
    obtain r2 where "sent (kick env watcher us w2) = sent w2 @ r2"
      using Cons.IH [of w2] by blast
    then show ?thesis using b None r1 by simp
  next
    case (Some e)
    obtain r2 where "sent (kick env watcher us (Errorf e ''ban %v'' [UserID u] w2)) =
        sent (Errorf e ''ban %v'' [UserID u] w2) @ r2"
      using Cons.IH [of "Errorf e ''ban %v'' [UserID u] w2"] by blast
    then show ?thesis using b Some r1 by (simp add: Errorf_def)
  qed
qed

lemma kick_bans_each:
  "u \<in> set users \<Longrightarrow>
   \<exists>before after k. ticks w \<le> k \<and>
     sent (kick env watcher users w) =
       sent w @ before @
         Raw_call ''banChatMember''
           [(''chat_id'', Recipient (chat watcher)),
            (''user_id'', FormatInt (UserID u)),
            (''until_date'',
             FormatInt (Unix (Add (time_Now_at env k) (367 * 24 * Hour))))] # after"
proof (induction users arbitrary: w)
  case Nil
  then show ?case by simp
next
  case (Cons x xs)
  let ?req = "\<lambda>i k. Raw_call ''banChatMember''
         [(''chat_id'', Recipient (chat watcher)),
          (''user_id'', FormatInt i),
          (''until_date'', FormatInt (Unix (Add (time_Now_at env k) (367 * 24 * Hour))))]"
  let ?w1 = "Infof ''kick %v'' [UserID x] w"
  obtain f w2 where b: "ban env watcher (UserID x) ?w1 = (f, w2)"
    by (cases "ban env watcher (UserID x) ?w1")
  obtain r1 where r1: "sent w2 = sent w @ ?req (UserID x) (ticks w) # r1"
    using ban_first_request [of env watcher "UserID x" ?w1] b
    by (auto simp: Infof_def)
  have t2: "ticks w \<le> ticks w2"
    using ban_ticks [of ?w1 env watcher "UserID x"] b by (simp add: Infof_def)
  define w3 where "w3 = (case f of None \<Rightarrow> w2 | Some e \<Rightarrow> Errorf e ''ban %v'' [UserID x] w2)"
  have k: "kick env watcher (x # xs) w = kick env watcher xs w3"
    using b by (simp add: w3_def split: option.splits)
  have s3: "sent w3 = sent w @ ?req (UserID x) (ticks w) # r1"
    using r1 by (simp add: w3_def Errorf_def split: option.splits)
  have t3: "ticks w \<le> ticks w3"
    using t2 by (simp add: w3_def Errorf_def split: option.splits)
  show ?case
  proof (cases "u = x")
    case True
    obtain r2 where "sent (kick env watcher xs w3) = sent w3 @ r2"
      using kick_sent_extends [of env watcher xs w3] by blast
    then have "ticks w \<le> ticks w \<and>
        sent (kick env watcher (x # xs) w) =
          sent w @ [] @ ?req (UserID u) (ticks w) # (r1 @ r2)"
      using k s3 True by simp
    then show ?thesis by blast
  next
    case False
    then have "u \<in> set xs" using Cons.prems by simp
    then obtain b2 a2 k2 where "ticks w3 \<le> k2"
      and "sent (kick env watcher xs w3) = sent w3 @ b2 @ ?req (UserID u) k2 # a2"
      using Cons.IH [of w3] by blast
    then have "ticks w \<le> k2 \<and>
        sent (kick env watcher (x # xs) w) =
          sent w @ (?req (UserID x) (ticks w) # r1 @ b2) @ ?req (UserID u) k2 # a2"
      using k s3 t3 by simp
    then show ?thesis by blast
  qed
qed

lemma cycle_docs: "docs (world_of (cycle env watcher w)) = docs w"
proof -
  let ?w1 = "w\<lparr>ticks := Suc (ticks w)\<rparr>"
  let ?t = "threshold watcher (time_Now_at env (ticks w))"
  obtain r w2 where c: "Find_Count env (last_message_gt ?t) ?w1 = (r, w2)"
    by (cases "Find_Count env (last_message_gt ?t) ?w1")
  have d2: "docs w2 = docs w"
    using Find_Count_world [of env "last_message_gt ?t" ?w1] c by simp
  show ?thesis
  proof (cases r)
    case (Inl e)
    then show ?thesis using c d2 by (simp add: cycle_def time_Now_def Fatalf_def)
  next
    case (Inr since)
    show ?thesis
    proof (cases "since = 0")
      case True
      then show ?thesis using c d2 Inr by (simp add: cycle_def time_Now_def Infof_def)
    next
      case False
      let ?t' = "threshold watcher (time_Now_at env (ticks w2))"
      let ?w3 = "w2\<lparr>ticks := Suc (ticks w2)\<rparr>"
      obtain r' w4 where a: "Find_All env (last_message_lt ?t') ?w3 = (r', w4)"
        by (cases "Find_All env (last_message_lt ?t') ?w3")
      have "docs w4 = docs w"
        using Find_All_world [of env "last_message_lt ?t'" ?w3] a d2 by simp
      then show ?thesis
        using c Inr False a by (simp add: cycle_def time_Now_def kick_docs)
    qed
  qed
qed

lemma WatchKick_docs: "docs (world_of (WatchKick n env watcher w)) = docs w"
proof (induction n arbitrary: w)
  case 0
  show ?case by simp
next
  case (Suc n)
  show ?case
  proof (cases "cycle env watcher w")
    case (Exited w')
    then show ?thesis using cycle_docs [of env watcher w] by simp
  next
    case (Continue w')
    then show ?thesis using cycle_docs [of env watcher w] Suc.IH [of w'] by simp
  qed
qed

text \<open>
  C4, as amended. In a scan cycle whose count query does not fail, the count the
  scanner takes is the number of documents whose \<^verbatim>\<open>last_message\<close> is strictly
  greater than the threshold: that is what the query the cycle makes returns, the
  cycle is skipped when it is zero, and goes on to the stale-candidate query when it
  is not.
\<close>

theorem scanner_active_count_is_strictly_above:
  "let t = threshold watcher (time_Now_at env (ticks w));
       t' = threshold watcher (time_Now_at env (Suc (ticks w)));
       since = length (filter (\<lambda>d. sint t < sint (LastMessage d)) (docs w));
       w2 = w\<lparr>ticks := Suc (ticks w),
              store_calls := store_calls w @ [Find_Count_call (last_message_gt t)]\<rparr>
   in store_failure env (length (store_calls w)) = None \<longrightarrow>
      fst (Find_Count env (last_message_gt t) (snd (time_Now env w))) = Inr since \<and>
      (since = 0 \<longrightarrow>
         cycle env watcher w =
           Continue (Infof ''no messages since %v'' [duration watcher] w2)) \<and>
      (since \<noteq> 0 \<longrightarrow>
         store_calls (world_of (cycle env watcher w)) =
           store_calls w @
             [Find_Count_call (last_message_gt t), Find_All_call (last_message_lt t')])"
proof -
  let ?t = "threshold watcher (time_Now_at env (ticks w))"
  let ?t' = "threshold watcher (time_Now_at env (Suc (ticks w)))"
  let ?since = "length (filter (\<lambda>d. sint ?t < sint (LastMessage d)) (docs w))"
  let ?w2 = "w\<lparr>ticks := Suc (ticks w),
              store_calls := store_calls w @ [Find_Count_call (last_message_gt ?t)]\<rparr>"
  have "fst (Find_Count env (last_message_gt ?t) (snd (time_Now env w))) = Inr ?since \<and>
      (?since = 0 \<longrightarrow>
         cycle env watcher w =
           Continue (Infof ''no messages since %v'' [duration watcher] ?w2)) \<and>
      (?since \<noteq> 0 \<longrightarrow>
         store_calls (world_of (cycle env watcher w)) =
           store_calls w @
             [Find_Count_call (last_message_gt ?t), Find_All_call (last_message_lt ?t')])"
    if ok: "store_failure env (length (store_calls w)) = None"
  proof (intro conjI impI)
    show "fst (Find_Count env (last_message_gt ?t) (snd (time_Now env w))) = Inr ?since"
      using ok by (simp add: Find_Count_def collection_call_def time_Now_def matches_gt)
  next
    assume "?since = 0"
    then show "cycle env watcher w =
        Continue (Infof ''no messages since %v'' [duration watcher] ?w2)"
      using ok
      by (simp add: cycle_def time_Now_def Find_Count_def collection_call_def matches_gt)
  next
    assume n: "?since \<noteq> 0"
    let ?w3 = "?w2\<lparr>ticks := Suc (Suc (ticks w))\<rparr>"
    obtain r' w4 where a: "Find_All env (last_message_lt ?t') ?w3 = (r', w4)"
      by (cases "Find_All env (last_message_lt ?t') ?w3")
    have s4: "store_calls w4 =
        store_calls w @
          [Find_Count_call (last_message_gt ?t), Find_All_call (last_message_lt ?t')]"
      using Find_All_world [of env "last_message_lt ?t'" ?w3] a by simp
    have "cycle env watcher w =
        Continue (kick env watcher (case r' of Inl _ \<Rightarrow> [] | Inr found \<Rightarrow> found) w4)"
      using ok n a
      by (simp add: cycle_def time_Now_def Find_Count_def collection_call_def matches_gt)
    then show "store_calls (world_of (cycle env watcher w)) =
        store_calls w @
          [Find_Count_call (last_message_gt ?t), Find_All_call (last_message_lt ?t')]"
      using s4 by (simp add: kick_store_calls)
  qed
  then show ?thesis by (simp add: Let_def)
qed

theorem scanner_active_count_is_strictly_above_witness:
  "store_calls (world_of
     (cycle
        \<lparr>time_Now_at = (\<lambda>n. 100000000000), store_failure = (\<lambda>n. None),
         platform = (\<lambda>h r. \<lparr>err = None, data = [],
                       profile = \<lparr>ChatID = 0, Username = [], FirstName = [], LastName = []\<rparr>\<rparr>),
         json_Unmarshal = (\<lambda>body. None),
         Duration_String = (\<lambda>d. [])\<rparr>
        \<lparr>chat = \<lparr>ChatID = 42, Username = [], FirstName = [], LastName = []\<rparr>,
         duration = 10000000000\<rparr>
        \<lparr>docs = [\<lparr>UserID = 1, LastMessage = 90\<rparr>, \<lparr>UserID = 2, LastMessage = 91\<rparr>,
                 \<lparr>UserID = 3, LastMessage = 5\<rparr>],
         store_calls = [], sent = [], logs = [], ticks = 0\<rparr>))
   = [Find_Count_call (last_message_gt 90), Find_All_call (last_message_lt 90)]"
proof -
  let ?watcher = "\<lparr>chat = \<lparr>ChatID = 42, Username = [], FirstName = [], LastName = []\<rparr>,
         duration = 10000000000\<rparr>"
  have t: "threshold ?watcher 100000000000 = 90"
    by (simp add: threshold_def Unix_def Add_def)
  show ?thesis
    using scanner_active_count_is_strictly_above
      [of ?watcher
        "\<lparr>time_Now_at = (\<lambda>n. 100000000000), store_failure = (\<lambda>n. None),
         platform = (\<lambda>h r. \<lparr>err = None, data = [],
                       profile = \<lparr>ChatID = 0, Username = [], FirstName = [], LastName = []\<rparr>\<rparr>),
         json_Unmarshal = (\<lambda>body. None),
         Duration_String = (\<lambda>d. [])\<rparr>"
        "\<lparr>docs = [\<lparr>UserID = 1, LastMessage = 90\<rparr>, \<lparr>UserID = 2, LastMessage = 91\<rparr>,
                 \<lparr>UserID = 3, LastMessage = 5\<rparr>],
         store_calls = [], sent = [], logs = [], ticks = 0\<rparr>"]
    by (simp add: Let_def t)
qed

text \<open>
  C4, as stated, fails: with a duration of 10 seconds and the clock at 100 seconds
  the threshold is 90. The one document has \<^verbatim>\<open>last_message\<close> 90, at the threshold,
  so one document is at or above it; the scanner counts none, logs "no messages
  since" and skips the cycle.
\<close>

theorem scanner_does_not_count_record_at_threshold:
  "threshold \<lparr>chat = \<lparr>ChatID = 42, Username = [], FirstName = [], LastName = []\<rparr>,
              duration = 10000000000\<rparr> 100000000000 = 90 \<and>
   length (filter (\<lambda>d. sint (90 :: int64) \<le> sint (LastMessage d))
             [\<lparr>UserID = 1, LastMessage = 90\<rparr>]) = 1 \<and>
   cycle
     \<lparr>time_Now_at = (\<lambda>n. 100000000000), store_failure = (\<lambda>n. None),
      platform = (\<lambda>h r. \<lparr>err = None, data = [],
                    profile = \<lparr>ChatID = 0, Username = [], FirstName = [], LastName = []\<rparr>\<rparr>),
      json_Unmarshal = (\<lambda>body. None),
      Duration_String = (\<lambda>d. [])\<rparr>
     \<lparr>chat = \<lparr>ChatID = 42, Username = [], FirstName = [], LastName = []\<rparr>,
      duration = 10000000000\<rparr>
     \<lparr>docs = [\<lparr>UserID = 1, LastMessage = 90\<rparr>], store_calls = [], sent = [], logs = [],
      ticks = 0\<rparr>
   = Continue
       \<lparr>docs = [\<lparr>UserID = 1, LastMessage = 90\<rparr>],
        store_calls = [Find_Count_call (last_message_gt 90)], sent = [],
        logs = [\<lparr>level = INFO, cause = None, format = ''no messages since %v'',
                 args = [10000000000]\<rparr>],
        ticks = 1\<rparr>"
  by (simp add: cycle_def time_Now_def threshold_def Unix_def Add_def Find_Count_def
      collection_call_def Infof_def)

text \<open>
  C3. In a scan cycle where no document has \<^verbatim>\<open>last_message\<close> above the threshold,
  the only call on the collection is the count query (no stale-candidate query is
  made), no request is sent to the platform, so no removal action runs, and the
  collection is as it was.
\<close>

theorem cycle_skipped_without_active:
  assumes "length (filter (\<lambda>d. sint (threshold watcher (time_Now_at env (ticks w)))
                                  < sint (LastMessage d)) (docs w)) = 0"
  shows "sent (world_of (cycle env watcher w)) = sent w \<and>
         store_calls (world_of (cycle env watcher w)) =
           store_calls w @
             [Find_Count_call (last_message_gt (threshold watcher (time_Now_at env (ticks w))))] \<and>
         docs (world_of (cycle env watcher w)) = docs w"
proof (cases "store_failure env (length (store_calls w))")
  case None
  then show ?thesis
    using assms
    by (simp add: cycle_def time_Now_def Find_Count_def collection_call_def matches_gt
        Infof_def)
next
  case (Some e)
  then show ?thesis
    by (simp add: cycle_def time_Now_def Find_Count_def collection_call_def Fatalf_def)
qed

theorem cycle_skipped_without_active_witness:
  "world_of
     (cycle
        \<lparr>time_Now_at = (\<lambda>n. 100000000000), store_failure = (\<lambda>n. None),
         platform = (\<lambda>h r. \<lparr>err = None, data = [],
                       profile = \<lparr>ChatID = 0, Username = [], FirstName = [], LastName = []\<rparr>\<rparr>),
         json_Unmarshal = (\<lambda>body. None),
         Duration_String = (\<lambda>d. [])\<rparr>
        \<lparr>chat = \<lparr>ChatID = 42, Username = [], FirstName = [], LastName = []\<rparr>,
         duration = 10000000000\<rparr>
        \<lparr>docs = [\<lparr>UserID = 1, LastMessage = 5\<rparr>], store_calls = [], sent = [], logs = [],
         ticks = 0\<rparr>)
   = \<lparr>docs = [\<lparr>UserID = 1, LastMessage = 5\<rparr>],
      store_calls = [Find_Count_call (last_message_gt 90)], sent = [],
      logs = [\<lparr>level = INFO, cause = None, format = ''no messages since %v'',
               args = [10000000000]\<rparr>],
      ticks = 1\<rparr>"
proof -
  let ?env = "\<lparr>time_Now_at = (\<lambda>n. 100000000000), store_failure = (\<lambda>n. None),
         platform = (\<lambda>h r. \<lparr>err = None, data = [],
                       profile = \<lparr>ChatID = 0, Username = [], FirstName = [], LastName = []\<rparr>\<rparr>),
         json_Unmarshal = (\<lambda>body. None),
         Duration_String = (\<lambda>d. [])\<rparr>"
  let ?watcher = "\<lparr>chat = \<lparr>ChatID = 42, Username = [], FirstName = [], LastName = []\<rparr>,
         duration = 10000000000\<rparr>"
  let ?w = "\<lparr>docs = [\<lparr>UserID = 1, LastMessage = 5\<rparr>], store_calls = [], sent = [], logs = [],
         ticks = 0\<rparr>"
  have t: "threshold ?watcher 100000000000 = 90"
    by (simp add: threshold_def Unix_def Add_def)
  have h: "length (filter (\<lambda>d. sint (threshold ?watcher (time_Now_at ?env (ticks ?w)))
                                  < sint (LastMessage d)) (docs ?w)) = 0"
    by (simp add: t)
  have l: "logs (world_of (cycle ?env ?watcher ?w)) =
      [\<lparr>level = INFO, cause = None, format = ''no messages since %v'', args = [10000000000]\<rparr>]"
    "ticks (world_of (cycle ?env ?watcher ?w)) = 1"
    by (simp_all add: cycle_def time_Now_def Find_Count_def collection_call_def t Infof_def)
  show ?thesis
    using cycle_skipped_without_active [OF h] l t
    by (cases "world_of (cycle ?env ?watcher ?w)") simp
qed

text \<open>
  C7. One scan cycle with an active member (93 is above the threshold 90) and a
  stale one, in which the count query succeeds and the stale-candidate query fails
  with "connection lost". The specification has the failure end the process; the cycle goes
  on as if the query had found nobody: nothing is logged, nobody is banned, and the
  loop continues.
\<close>

theorem cycle_ignores_stale_query_failure:
  "cycle
     \<lparr>time_Now_at = (\<lambda>n. 100000000000),
      store_failure = (\<lambda>n. if n = 1 then Some (Err ''connection lost'') else None),
      platform = (\<lambda>h r. \<lparr>err = None, data = [],
                    profile = \<lparr>ChatID = 0, Username = [], FirstName = [], LastName = []\<rparr>\<rparr>),
      json_Unmarshal = (\<lambda>body. None),
      Duration_String = (\<lambda>d. [])\<rparr>
     \<lparr>chat = \<lparr>ChatID = 42, Username = [], FirstName = [], LastName = []\<rparr>,
      duration = 10000000000\<rparr>
     \<lparr>docs = [\<lparr>UserID = 1, LastMessage = 93\<rparr>, \<lparr>UserID = 2, LastMessage = 5\<rparr>],
      store_calls = [], sent = [], logs = [], ticks = 0\<rparr>
   = Continue
       \<lparr>docs = [\<lparr>UserID = 1, LastMessage = 93\<rparr>, \<lparr>UserID = 2, LastMessage = 5\<rparr>],
        store_calls = [Find_Count_call (last_message_gt 90), Find_All_call (last_message_lt 90)],
        sent = [], logs = [], ticks = 2\<rparr>"
  by (simp add: cycle_def time_Now_def Find_Count_def Find_All_def collection_call_def
      threshold_def Unix_def Add_def)

text \<open>
  C9, as amended. The scanner never changes the documents of the collection,
  whatever the number of cycles; and in every cycle whose count query succeeds and
  finds an active member, and whose stale-candidate query succeeds, a ban request
  for the configured chat is sent for every member whose document is below the
  threshold, with the value \<^verbatim>\<open>telebot.Forever()\<close> gives at a clock reading of that
  cycle.
\<close>

theorem scanner_keeps_store_and_rebans:
  "docs (world_of (WatchKick n env watcher w)) = docs w \<and>
   (store_failure env (length (store_calls w)) = None \<and>
    store_failure env (Suc (length (store_calls w))) = None \<and>
    (\<exists>a \<in> set (docs w).
        sint (threshold watcher (time_Now_at env (ticks w))) < sint (LastMessage a)) \<and>
    d \<in> set (docs w) \<and>
    sint (LastMessage d) < sint (threshold watcher (time_Now_at env (Suc (ticks w))))
    \<longrightarrow>
    (\<exists>before after k. Suc (Suc (ticks w)) \<le> k \<and>
       sent (world_of (cycle env watcher w)) =
         sent w @ before @
           Raw_call ''banChatMember''
             [(''chat_id'', Recipient (chat watcher)),
              (''user_id'', FormatInt (UserID d)),
              (''until_date'',
               FormatInt (Unix (Add (time_Now_at env k) (367 * 24 * Hour))))] # after))"
proof (intro conjI impI)
  show "docs (world_of (WatchKick n env watcher w)) = docs w"
    by (rule WatchKick_docs)
next
  let ?t = "threshold watcher (time_Now_at env (ticks w))"
  let ?t' = "threshold watcher (time_Now_at env (Suc (ticks w)))"
  let ?w4 = "w\<lparr>ticks := Suc (Suc (ticks w)),
               store_calls := store_calls w @
                 [Find_Count_call (last_message_gt ?t), Find_All_call (last_message_lt ?t')]\<rparr>"
  let ?users = "filter (matches (last_message_lt ?t')) (docs w)"
  assume h: "store_failure env (length (store_calls w)) = None \<and>
    store_failure env (Suc (length (store_calls w))) = None \<and>
    (\<exists>a \<in> set (docs w). sint ?t < sint (LastMessage a)) \<and>
    d \<in> set (docs w) \<and> sint (LastMessage d) < sint ?t'"
  then have "filter (matches (last_message_gt ?t)) (docs w) \<noteq> []"
    by (auto simp: filter_empty_conv)
  then have c: "cycle env watcher w = Continue (kick env watcher ?users ?w4)"
    using h
    by (simp add: cycle_def time_Now_def Find_Count_def Find_All_def collection_call_def)
  have "d \<in> set ?users" using h by simp
  then show "\<exists>before after k. Suc (Suc (ticks w)) \<le> k \<and>
       sent (world_of (cycle env watcher w)) =
         sent w @ before @
           Raw_call ''banChatMember''
             [(''chat_id'', Recipient (chat watcher)),
              (''user_id'', FormatInt (UserID d)),
              (''until_date'',
               FormatInt (Unix (Add (time_Now_at env k) (367 * 24 * Hour))))] # after"
    using kick_bans_each [of d ?users ?w4 env watcher] c by simp
qed

theorem scanner_keeps_store_and_rebans_witness:
  "docs (world_of
     (WatchKick 3
        \<lparr>time_Now_at = (\<lambda>n. 100000000000), store_failure = (\<lambda>n. None),
         platform = (\<lambda>h r. \<lparr>err = None, data = [],
                       profile = \<lparr>ChatID = 0, Username = [], FirstName = [], LastName = []\<rparr>\<rparr>),
         json_Unmarshal = (\<lambda>body. None),
         Duration_String = (\<lambda>d. [])\<rparr>
        \<lparr>chat = \<lparr>ChatID = 42, Username = [], FirstName = [], LastName = []\<rparr>,
         duration = 10000000000\<rparr>
        \<lparr>docs = [\<lparr>UserID = 1, LastMessage = 93\<rparr>, \<lparr>UserID = 2, LastMessage = 5\<rparr>],
         store_calls = [], sent = [], logs = [], ticks = 0\<rparr>))
     = [\<lparr>UserID = 1, LastMessage = 93\<rparr>, \<lparr>UserID = 2, LastMessage = 5\<rparr>] \<and>
   (\<exists>before after.
      sent (world_of
        (cycle
           \<lparr>time_Now_at = (\<lambda>n. 100000000000), store_failure = (\<lambda>n. None),
            platform = (\<lambda>h r. \<lparr>err = None, data = [],
                          profile = \<lparr>ChatID = 0, Username = [], FirstName = [], LastName = []\<rparr>\<rparr>),
            json_Unmarshal = (\<lambda>body. None),
            Duration_String = (\<lambda>d. [])\<rparr>
           \<lparr>chat = \<lparr>ChatID = 42, Username = [], FirstName = [], LastName = []\<rparr>,
            duration = 10000000000\<rparr>
           \<lparr>docs = [\<lparr>UserID = 1, LastMessage = 93\<rparr>, \<lparr>UserID = 2, LastMessage = 5\<rparr>],
            store_calls = [], sent = [], logs = [], ticks = 0\<rparr>))
      = before @
          Raw_call ''banChatMember''
            [(''chat_id'', ''42''), (''user_id'', ''2''), (''until_date'', ''31708900'')]
          # after)"
proof -
  let ?env = "\<lparr>time_Now_at = (\<lambda>n. 100000000000), store_failure = (\<lambda>n. None),
         platform = (\<lambda>h r. \<lparr>err = None, data = [],
                       profile = \<lparr>ChatID = 0, Username = [], FirstName = [], LastName = []\<rparr>\<rparr>),
         json_Unmarshal = (\<lambda>body. None),
         Duration_String = (\<lambda>d. [])\<rparr>"
  let ?watcher = "\<lparr>chat = \<lparr>ChatID = 42, Username = [], FirstName = [], LastName = []\<rparr>,
         duration = 10000000000\<rparr>"
  let ?w = "\<lparr>docs = [\<lparr>UserID = 1, LastMessage = 93\<rparr>, \<lparr>UserID = 2, LastMessage = 5\<rparr>],
         store_calls = [], sent = [], logs = [], ticks = 0\<rparr>"
  have t: "threshold ?watcher 100000000000 = 90"
    by (simp add: threshold_def Unix_def Add_def)
  have f: "FormatInt 42 = ''42''" "FormatInt 2 = ''2''" "FormatInt 31708900 = ''31708900''"
    by (simp_all add: FormatInt_eval)
  have "docs (world_of (WatchKick 3 ?env ?watcher ?w)) = docs ?w \<and>
    (\<exists>before after k. Suc (Suc (ticks ?w)) \<le> k \<and>
       sent (world_of (cycle ?env ?watcher ?w)) =
         sent ?w @ before @
           Raw_call ''banChatMember''
             [(''chat_id'', Recipient (chat ?watcher)),
              (''user_id'', FormatInt (UserID \<lparr>UserID = 2, LastMessage = 5\<rparr>)),
              (''until_date'',
               FormatInt (Unix (Add (time_Now_at ?env k) (367 * 24 * Hour))))] # after)"
    using scanner_keeps_store_and_rebans
      [of 3 ?env ?watcher ?w "\<lparr>UserID = 2, LastMessage = 5\<rparr>"]
    by (simp add: t)
  then show ?thesis
    by (simp add: f Recipient_def Unix_def Add_def Hour_def)
qed

text \<open>
  C9, as stated, fails. Two cycles, at 100 seconds and an hour later, with a
  duration of 10 seconds: in the first, member 1 is active and the stale member 2 is
  banned; in the second, member 1 is stale too, the count of active members is zero
  and the cycle is skipped. Member 2 is still below the threshold and is not banned
  again: one ban request is sent over the two cycles.
\<close>

theorem stale_member_is_not_banned_again:
  "sint (LastMessage \<lparr>UserID = 2, LastMessage = 5 :: int64\<rparr>) <
     sint (threshold
        \<lparr>chat = \<lparr>ChatID = 42, Username = [], FirstName = [], LastName = []\<rparr>,
         duration = 10000000000\<rparr> 3700000000000) \<and>
   WatchKick (Suc (Suc 0))
     \<lparr>time_Now_at = (\<lambda>n. if n < 3 then 100000000000 else 3700000000000),
      store_failure = (\<lambda>n. None),
      platform = (\<lambda>h r. \<lparr>err = None, data = [],
                    profile = \<lparr>ChatID = 0, Username = [], FirstName = [], LastName = []\<rparr>\<rparr>),
      json_Unmarshal = (\<lambda>body. None),
      Duration_String = (\<lambda>d. [])\<rparr>
     \<lparr>chat = \<lparr>ChatID = 42, Username = [], FirstName = [], LastName = []\<rparr>,
      duration = 10000000000\<rparr>
     \<lparr>docs = [\<lparr>UserID = 1, LastMessage = 93\<rparr>, \<lparr>UserID = 2, LastMessage = 5\<rparr>],
      store_calls = [], sent = [], logs = [], ticks = 0\<rparr>
   = Continue
       \<lparr>docs = [\<lparr>UserID = 1, LastMessage = 93\<rparr>, \<lparr>UserID = 2, LastMessage = 5\<rparr>],
        store_calls = [Find_Count_call (last_message_gt 90), Find_All_call (last_message_lt 90),
                       Find_Count_call (last_message_gt 3690)],
        sent = [Raw_call ''banChatMember''
                  [(''chat_id'', ''42''), (''user_id'', ''2''), (''until_date'', ''31708900'')]],
        logs = [\<lparr>level = INFO, cause = None, format = ''kick %v'', args = [2]\<rparr>,
                \<lparr>level = INFO, cause = None, format = ''no messages since %v'',
                 args = [10000000000]\<rparr>],
        ticks = 4\<rparr>"
  by (simp add: cycle_def ban_def Forever_def Hour_def Raw_def send_request_def time_Now_def
      Find_Count_def Find_All_def collection_call_def threshold_def Unix_def Add_def Infof_def
      Recipient_def FormatInt_eval)

section \<open>Properties of the activity recorder\<close>

lemma updateLastMessage_store_calls:
  "store_calls (snd (updateLastMessage env user w)) =
     store_calls w @ [Upsert_call (user_id_is user) user (Unix (time_Now_at env (ticks w)))]"
  by (simp add: updateLastMessage_def time_Now_def Infof_def Upsert_def collection_call_def
      Let_def split: option.splits)

lemma updateLastMessage_ok:
  "store_failure env (length (store_calls w)) = None \<Longrightarrow>
   fst (updateLastMessage env user w) = None \<and>
   docs (snd (updateLastMessage env user w)) =
     upsert_set (user_id_is user)
       \<lparr>UserID = user, LastMessage = Unix (time_Now_at env (ticks w))\<rparr> (docs w)"
  by (simp add: updateLastMessage_def time_Now_def Infof_def Upsert_def collection_call_def
      Let_def)

lemma listTimestamps_entries_docs:
  "docs (snd (listTimestamps_entries env users entries w)) = docs w"
  by (induction users arbitrary: entries w)
    (simp_all add: ChatByID_def send_request_def time_Now_def Errorf_def Let_def
      split: option.splits)

lemma listTimestamps_docs: "docs (snd (listTimestamps env w)) = docs w"
proof -
  obtain f w1 where c: "collection_call env (Find_Sort_All_call bson_all) w = (f, w1)"
    by (cases "collection_call env (Find_Sort_All_call bson_all) w")
  then have d: "docs w1 = docs w"
    by (auto simp: collection_call_def)
  show ?thesis
  proof (cases f)
    case None
    obtain es w2 where l: "listTimestamps_entries env
        (sort_key (\<lambda>d. sint (LastMessage d)) (filter (matches bson_all) (docs w1))) [] w1 =
        (es, w2)"
      by (cases "listTimestamps_entries env
        (sort_key (\<lambda>d. sint (LastMessage d)) (filter (matches bson_all) (docs w1))) [] w1")
    then have "docs w2 = docs w1"
      using listTimestamps_entries_docs
        [of env "sort_key (\<lambda>d. sint (LastMessage d)) (filter (matches bson_all) (docs w1))"
          "[]" w1]
      by simp
    then show ?thesis
      using c None l d by (simp add: listTimestamps_def Find_Sort_All_def)
  next
    case (Some e)
    then show ?thesis
      using c d by (simp add: listTimestamps_def Find_Sort_All_def)
  qed
qed

text \<open>
  Off the two command texts, the two copies of \<open>handle\<close> do the same.
\<close>

lemma handle_part_000_agrees:
  "Message update = Some m \<Longrightarrow> Text m \<noteq> ''/when'' \<Longrightarrow> Text m \<noteq> ''q'' \<Longrightarrow>
   handle env update w = handle_part_000 env update w"
  by (simp add: handle_def handle_part_000_def)

text \<open>
  C5, as amended. For a message whose text is neither \<^verbatim>\<open>/when\<close> nor \<^verbatim>\<open>q\<close>, that
  carries a sender and no join or leave payload, the one call the recorder makes on
  the collection is the upsert of the sender's id with the current time; when that
  call does not fail, \<open>handle\<close> returns \<^verbatim>\<open>nil\<close> and the sender's document holds
  that time.
\<close>

theorem message_from_sender_upserts:
  assumes "Message update = Some m"
    and "Text m \<noteq> ''/when''" and "Text m \<noteq> ''q''"
    and "UserLeft m = None" and "UserJoined m = None"
    and "Sender m = Some sender"
  shows "store_calls (snd (handle env update w)) =
           store_calls w @
             [Upsert_call (user_id_is (ID sender)) (ID sender)
                (Unix (time_Now_at env (ticks w)))] \<and>
         (store_failure env (length (store_calls w)) = None \<longrightarrow>
            fst (handle env update w) = None \<and>
            docs (snd (handle env update w)) =
              upsert_set (user_id_is (ID sender))
                \<lparr>UserID = ID sender, LastMessage = Unix (time_Now_at env (ticks w))\<rparr>
                (docs w))"
proof -
  have "handle env update w = updateLastMessage env (ID sender) w"
    using assms by (simp add: handle_def)
  then show ?thesis
    by (simp add: updateLastMessage_store_calls updateLastMessage_ok)
qed

text \<open>
  C10, as amended. For a message whose text is neither \<^verbatim>\<open>/when\<close> nor \<^verbatim>\<open>q\<close>: with
  a member-left payload the one call on the collection is the removal of that
  member's document, whatever the sender and the join payload are; with a
  member-joined payload and no member-left payload it is the upsert of the joined
  member's id, whatever the sender is.
\<close>

theorem leave_before_join_before_sender:
  assumes "Message update = Some m"
    and "Text m \<noteq> ''/when''" and "Text m \<noteq> ''q''"
  shows "(UserLeft m = Some left \<longrightarrow>
            store_calls (snd (handle env update w)) =
              store_calls w @ [Remove_call (user_id_is (ID left))]) \<and>
         (UserLeft m = None \<and> UserJoined m = Some joined \<longrightarrow>
            store_calls (snd (handle env update w)) =
              store_calls w @
                [Upsert_call (user_id_is (ID joined)) (ID joined)
                   (Unix (time_Now_at env (ticks w)))])"
proof (intro conjI impI)
  assume "UserLeft m = Some left"
  then show "store_calls (snd (handle env update w)) =
      store_calls w @ [Remove_call (user_id_is (ID left))]"
    using assms
    by (simp add: handle_def Remove_def collection_call_def Infof_def Let_def
        split: option.splits)
next
  assume "UserLeft m = None \<and> UserJoined m = Some joined"
  then have "handle env update w = updateLastMessage env (ID joined) w"
    using assms by (simp add: handle_def)
  then show "store_calls (snd (handle env update w)) =
      store_calls w @
        [Upsert_call (user_id_is (ID joined)) (ID joined) (Unix (time_Now_at env (ticks w)))]"
    by (simp add: updateLastMessage_store_calls)
qed

theorem message_from_sender_upserts_witness:
  "handle
     \<lparr>time_Now_at = (\<lambda>n. 100000000000), store_failure = (\<lambda>n. None),
      platform = (\<lambda>h r. \<lparr>err = None, data = [],
                    profile = \<lparr>ChatID = 0, Username = [], FirstName = [], LastName = []\<rparr>\<rparr>),
      json_Unmarshal = (\<lambda>body. None),
      Duration_String = (\<lambda>d. [])\<rparr>
     \<lparr>Message = Some \<lparr>Text = ''hello'', Sender = Some \<lparr>ID = 7\<rparr>, UserLeft = None,
                       UserJoined = None\<rparr>\<rparr>
     \<lparr>docs = [\<lparr>UserID = 7, LastMessage = 5\<rparr>], store_calls = [], sent = [], logs = [],
      ticks = 0\<rparr>
   = (None,
      \<lparr>docs = [\<lparr>UserID = 7, LastMessage = 100\<rparr>],
       store_calls = [Upsert_call (user_id_is 7) 7 100], sent = [],
       logs = [\<lparr>level = INFO, cause = None, format = ''update user: %v now: %v'',
                args = [7, 100]\<rparr>],
       ticks = 1\<rparr>)"
proof -
  let ?env = "\<lparr>time_Now_at = (\<lambda>n. 100000000000), store_failure = (\<lambda>n. None),
      platform = (\<lambda>h r. \<lparr>err = None, data = [],
                    profile = \<lparr>ChatID = 0, Username = [], FirstName = [], LastName = []\<rparr>\<rparr>),
      json_Unmarshal = (\<lambda>body. None),
      Duration_String = (\<lambda>d. [])\<rparr>"
  let ?m = "\<lparr>Text = ''hello'', Sender = Some \<lparr>ID = 7\<rparr>, UserLeft = None, UserJoined = None\<rparr>"
  let ?w = "\<lparr>docs = [\<lparr>UserID = 7, LastMessage = 5\<rparr>], store_calls = [], sent = [], logs = [],
      ticks = 0\<rparr>"
  let ?r = "handle ?env \<lparr>Message = Some ?m\<rparr> ?w"
  have u: "Unix 100000000000 = 100"
    by (simp add: Unix_def)
  have rest: "sent (snd ?r) = []" "ticks (snd ?r) = 1"
    "logs (snd ?r) = [\<lparr>level = INFO, cause = None, format = ''update user: %v now: %v'',
                args = [7, 100]\<rparr>]"
    by (simp_all add: handle_def updateLastMessage_def time_Now_def Infof_def Upsert_def
        collection_call_def u)
  have "store_calls (snd ?r) = [Upsert_call (user_id_is 7) 7 100] \<and> fst ?r = None \<and>
      docs (snd ?r) = [\<lparr>UserID = 7, LastMessage = 100\<rparr>]"
    using message_from_sender_upserts [of "\<lparr>Message = Some ?m\<rparr>" ?m "\<lparr>ID = 7\<rparr>" ?env ?w]
    by (simp add: u)
  then show ?thesis
    using rest by (cases ?r, cases "snd ?r") simp
qed

text \<open>
  C5, as stated, fails: a message with the text \<^verbatim>\<open>/when\<close> from sender 7 is answered
  with the report and makes no upsert; the sender's document keeps its old time.
\<close>

theorem command_message_makes_no_upsert:
  "handle
     \<lparr>time_Now_at = (\<lambda>n. 100000000000), store_failure = (\<lambda>n. None),
      platform = (\<lambda>h r. \<lparr>err = None, data = [],
                    profile = \<lparr>ChatID = 7, Username = ''alice'', FirstName = ''Alice'',
                               LastName = ''A''\<rparr>\<rparr>),
      json_Unmarshal = (\<lambda>body. None),
      Duration_String = (\<lambda>d. if d = 95000000000 then ''1m35s'' else [])\<rparr>
     \<lparr>Message = Some \<lparr>Text = ''/when'', Sender = Some \<lparr>ID = 7\<rparr>, UserLeft = None,
                       UserJoined = None\<rparr>\<rparr>
     \<lparr>docs = [\<lparr>UserID = 7, LastMessage = 5\<rparr>], store_calls = [], sent = [], logs = [],
      ticks = 0\<rparr>
   = (None,
      \<lparr>docs = [\<lparr>UserID = 7, LastMessage = 5\<rparr>],
       store_calls = [Find_Sort_All_call bson_all],
       sent = [ChatByID_call 7, Send_call (Some \<lparr>ID = 7\<rparr>) ''@alice Alice A 1m35s''],
       logs = [], ticks = 1\<rparr>)"
  by (simp add: handle_def listTimestamps_def Find_Sort_All_def collection_call_def
      ChatByID_def Send_def send_request_def time_Now_def time_Unix_def Sub_def)

text \<open>
  C10, as stated, fails: a message with the text \<^verbatim>\<open>q\<close> and a member-left payload
  for member 5 is answered with the report; no removal is made and the member's
  document stays.
\<close>

theorem command_message_makes_no_removal:
  "handle
     \<lparr>time_Now_at = (\<lambda>n. 100000000000), store_failure = (\<lambda>n. None),
      platform = (\<lambda>h r. \<lparr>err = None, data = [],
                    profile = \<lparr>ChatID = 5, Username = ''bob'', FirstName = ''Bob'',
                               LastName = ''B''\<rparr>\<rparr>),
      json_Unmarshal = (\<lambda>body. None),
      Duration_String = (\<lambda>d. if d = 95000000000 then ''1m35s'' else [])\<rparr>
     \<lparr>Message = Some \<lparr>Text = ''q'', Sender = Some \<lparr>ID = 5\<rparr>, UserLeft = Some \<lparr>ID = 5\<rparr>,
                       UserJoined = None\<rparr>\<rparr>
     \<lparr>docs = [\<lparr>UserID = 5, LastMessage = 5\<rparr>], store_calls = [], sent = [], logs = [],
      ticks = 0\<rparr>
   = (None,
      \<lparr>docs = [\<lparr>UserID = 5, LastMessage = 5\<rparr>],
       store_calls = [Find_Sort_All_call bson_all],
       sent = [ChatByID_call 5, Send_call (Some \<lparr>ID = 5\<rparr>) ''@bob Bob B 1m35s''],
       logs = [], ticks = 1\<rparr>)"
  by (simp add: handle_def listTimestamps_def Find_Sort_All_def collection_call_def
      ChatByID_def Send_def send_request_def time_Now_def time_Unix_def Sub_def)

theorem leave_before_join_before_sender_witness:
  "store_calls (snd (handle
     \<lparr>time_Now_at = (\<lambda>n. 100000000000), store_failure = (\<lambda>n. None),
      platform = (\<lambda>h r. \<lparr>err = None, data = [],
                    profile = \<lparr>ChatID = 0, Username = [], FirstName = [], LastName = []\<rparr>\<rparr>),
      json_Unmarshal = (\<lambda>body. None),
      Duration_String = (\<lambda>d. [])\<rparr>
     \<lparr>Message = Some \<lparr>Text = [], Sender = Some \<lparr>ID = 1\<rparr>, UserLeft = Some \<lparr>ID = 5\<rparr>,
                       UserJoined = Some \<lparr>ID = 6\<rparr>\<rparr>\<rparr>
     \<lparr>docs = [\<lparr>UserID = 5, LastMessage = 5\<rparr>], store_calls = [], sent = [], logs = [],
      ticks = 0\<rparr>)) = [Remove_call (user_id_is 5)] \<and>
   store_calls (snd (handle
     \<lparr>time_Now_at = (\<lambda>n. 100000000000), store_failure = (\<lambda>n. None),
      platform = (\<lambda>h r. \<lparr>err = None, data = [],
                    profile = \<lparr>ChatID = 0, Username = [], FirstName = [], LastName = []\<rparr>\<rparr>),
      json_Unmarshal = (\<lambda>body. None),
      Duration_String = (\<lambda>d. [])\<rparr>
     \<lparr>Message = Some \<lparr>Text = [], Sender = Some \<lparr>ID = 1\<rparr>, UserLeft = None,
                       UserJoined = Some \<lparr>ID = 6\<rparr>\<rparr>\<rparr>
     \<lparr>docs = [\<lparr>UserID = 5, LastMessage = 5\<rparr>], store_calls = [], sent = [], logs = [],
      ticks = 0\<rparr>)) = [Upsert_call (user_id_is 6) 6 100]"
proof -
  let ?env = "\<lparr>time_Now_at = (\<lambda>n. 100000000000), store_failure = (\<lambda>n. None),
      platform = (\<lambda>h r. \<lparr>err = None, data = [],
                    profile = \<lparr>ChatID = 0, Username = [], FirstName = [], LastName = []\<rparr>\<rparr>),
      json_Unmarshal = (\<lambda>body. None),
      Duration_String = (\<lambda>d. [])\<rparr>"
  let ?left = "\<lparr>Text = [], Sender = Some \<lparr>ID = 1\<rparr>, UserLeft = Some \<lparr>ID = 5\<rparr>,
                       UserJoined = Some \<lparr>ID = 6\<rparr>\<rparr>"
  let ?joined = "\<lparr>Text = [], Sender = Some \<lparr>ID = 1\<rparr>, UserLeft = None,
                       UserJoined = Some \<lparr>ID = 6\<rparr>\<rparr>"
  let ?w = "\<lparr>docs = [\<lparr>UserID = 5, LastMessage = 5\<rparr>], store_calls = [], sent = [], logs = [],
      ticks = 0\<rparr>"
  have u: "Unix 100000000000 = 100"
    by (simp add: Unix_def)
  show ?thesis
    using leave_before_join_before_sender
        [of "\<lparr>Message = Some ?left\<rparr>" ?left "\<lparr>ID = 5\<rparr>" ?env ?w "\<lparr>ID = 6\<rparr>"]
      leave_before_join_before_sender
        [of "\<lparr>Message = Some ?joined\<rparr>" ?joined "\<lparr>ID = 5\<rparr>" ?env ?w "\<lparr>ID = 6\<rparr>"]
    by (simp add: u)
qed

text \<open>
  C6, as amended. For a member-left event when the collection holds no document of
  that member: the documents are as they were, whatever else happens; and when the
  event reaches the removal (its text is neither \<^verbatim>\<open>/when\<close> nor \<^verbatim>\<open>q\<close>) and the call
  on the collection does not fail otherwise, \<open>handle\<close> returns the error
  \<^verbatim>\<open>remove user\<close> wrapping \<^verbatim>\<open>not found\<close>.
\<close>

theorem member_left_without_record_is_not_found:
  assumes "Message update = Some m"
    and "UserLeft m = Some left"
    and "\<forall>d \<in> set (docs w). UserID d \<noteq> ID left"
  shows "docs (snd (handle env update w)) = docs w \<and>
         (Text m \<noteq> ''/when'' \<and> Text m \<noteq> ''q'' \<and>
          store_failure env (length (store_calls w)) = None \<longrightarrow>
            fst (handle env update w) = Some (Format ErrNotFound ''remove user''))"
proof -
  have none: "filter (matches (user_id_is (ID left))) (docs w) = []"
    using assms(3) by (simp add: filter_empty_conv)
  show ?thesis
  proof (cases "Text m = ''/when'' \<or> Text m = ''q''")
    case True
    obtain r w1 where l: "listTimestamps env w = (r, w1)"
      by (cases "listTimestamps env w")
    have "docs w1 = docs w"
      using listTimestamps_docs [of env w] l by simp
    then have "docs (snd (handle env update w)) = docs w"
      using assms(1) True l
      by (cases r) (simp_all add: handle_def Send_def send_request_def)
    then show ?thesis using True by auto
  next
    case False
    then show ?thesis
      using assms(1,2) none
      by (simp add: handle_def Remove_def collection_call_def Infof_def Let_def
          split: option.splits)
  qed
qed

theorem member_left_without_record_is_not_found_witness:
  "docs (snd (handle
     \<lparr>time_Now_at = (\<lambda>n. 100000000000), store_failure = (\<lambda>n. None),
      platform = (\<lambda>h r. \<lparr>err = None, data = [],
                    profile = \<lparr>ChatID = 0, Username = [], FirstName = [], LastName = []\<rparr>\<rparr>),
      json_Unmarshal = (\<lambda>body. None),
      Duration_String = (\<lambda>d. [])\<rparr>
     \<lparr>Message = Some \<lparr>Text = [], Sender = Some \<lparr>ID = 5\<rparr>, UserLeft = Some \<lparr>ID = 5\<rparr>,
                       UserJoined = None\<rparr>\<rparr>
     \<lparr>docs = [\<lparr>UserID = 7, LastMessage = 5\<rparr>], store_calls = [], sent = [], logs = [],
      ticks = 0\<rparr>)) = [\<lparr>UserID = 7, LastMessage = 5\<rparr>] \<and>
   fst (handle
     \<lparr>time_Now_at = (\<lambda>n. 100000000000), store_failure = (\<lambda>n. None),
      platform = (\<lambda>h r. \<lparr>err = None, data = [],
                    profile = \<lparr>ChatID = 0, Username = [], FirstName = [], LastName = []\<rparr>\<rparr>),
      json_Unmarshal = (\<lambda>body. None),
      Duration_String = (\<lambda>d. [])\<rparr>
     \<lparr>Message = Some \<lparr>Text = [], Sender = Some \<lparr>ID = 5\<rparr>, UserLeft = Some \<lparr>ID = 5\<rparr>,
                       UserJoined = None\<rparr>\<rparr>
     \<lparr>docs = [\<lparr>UserID = 7, LastMessage = 5\<rparr>], store_calls = [], sent = [], logs = [],
      ticks = 0\<rparr>) = Some (Format (Err ''not found'') ''remove user'')"
  using member_left_without_record_is_not_found
    [of "\<lparr>Message = Some \<lparr>Text = [], Sender = Some \<lparr>ID = 5\<rparr>, UserLeft = Some \<lparr>ID = 5\<rparr>,
                       UserJoined = None\<rparr>\<rparr>"
        "\<lparr>Text = [], Sender = Some \<lparr>ID = 5\<rparr>, UserLeft = Some \<lparr>ID = 5\<rparr>, UserJoined = None\<rparr>"
        "\<lparr>ID = 5\<rparr>"
        "\<lparr>docs = [\<lparr>UserID = 7, LastMessage = 5\<rparr>], store_calls = [], sent = [], logs = [],
          ticks = 0\<rparr>"
        "\<lparr>time_Now_at = (\<lambda>n. 100000000000), store_failure = (\<lambda>n. None),
      platform = (\<lambda>h r. \<lparr>err = None, data = [],
                    profile = \<lparr>ChatID = 0, Username = [], FirstName = [], LastName = []\<rparr>\<rparr>),
      json_Unmarshal = (\<lambda>body. None),
      Duration_String = (\<lambda>d. [])\<rparr>"]
  by (simp add: ErrNotFound_def)

text \<open>
  C6, as stated, fails: member 9 leaves and the collection holds no document of
  member 9. The removal finds nothing to remove, the library reports "not found",
  and \<open>handle\<close> returns that error wrapped in "remove user".
\<close>

theorem member_left_without_record_returns_error:
  "handle
     \<lparr>time_Now_at = (\<lambda>n. 100000000000), store_failure = (\<lambda>n. None),
      platform = (\<lambda>h r. \<lparr>err = None, data = [],
                    profile = \<lparr>ChatID = 0, Username = [], FirstName = [], LastName = []\<rparr>\<rparr>),
      json_Unmarshal = (\<lambda>body. None),
      Duration_String = (\<lambda>d. [])\<rparr>
     \<lparr>Message = Some \<lparr>Text = [], Sender = Some \<lparr>ID = 9\<rparr>, UserLeft = Some \<lparr>ID = 9\<rparr>,
                       UserJoined = None\<rparr>\<rparr>
     \<lparr>docs = [\<lparr>UserID = 7, LastMessage = 5\<rparr>], store_calls = [], sent = [], logs = [],
      ticks = 0\<rparr>
   = (Some (Format (Err ''not found'') ''remove user''),
      \<lparr>docs = [\<lparr>UserID = 7, LastMessage = 5\<rparr>],
       store_calls = [Remove_call (user_id_is 9)], sent = [],
       logs = [\<lparr>level = INFO, cause = None, format = ''remove user: %v now: %v'',
                args = [9]\<rparr>],
       ticks = 0\<rparr>)"
  by (simp add: handle_def Remove_def collection_call_def Infof_def ErrNotFound_def)

text \<open>
  C8. Two messages arrive, from members 1 and 2, and the upsert for the first fails
  with "connection lost". The loop goes on to the second message, whose upsert is
  made; the specification has the failure logged, and the log holds the three lines that
  \<open>handle\<close> and \<open>Record\<close> write at level INFO and nothing about the failure.
\<close>

theorem Record_drops_handle_failure:
  "Record
     \<lparr>time_Now_at = (\<lambda>n. 100000000000),
      store_failure = (\<lambda>n. if n = 0 then Some (Err ''connection lost'') else None),
      platform = (\<lambda>h r. \<lparr>err = None, data = [],
                    profile = \<lparr>ChatID = 0, Username = [], FirstName = [], LastName = []\<rparr>\<rparr>),
      json_Unmarshal = (\<lambda>body. None),
      Duration_String = (\<lambda>d. [])\<rparr>
     [\<lparr>Message = Some \<lparr>Text = ''hi'', Sender = Some \<lparr>ID = 1\<rparr>, UserLeft = None,
                        UserJoined = None\<rparr>\<rparr>,
      \<lparr>Message = Some \<lparr>Text = ''hello'', Sender = Some \<lparr>ID = 2\<rparr>, UserLeft = None,
                        UserJoined = None\<rparr>\<rparr>]
     \<lparr>docs = [], store_calls = [], sent = [], logs = [], ticks = 0\<rparr>
   = Continue
       \<lparr>docs = [\<lparr>UserID = 2, LastMessage = 100\<rparr>],
        store_calls = [Upsert_call (user_id_is 1) 1 100, Upsert_call (user_id_is 2) 2 100],
        sent = [SetCommands_call
                  [(''/when'',
                    ''Show the list of users and number of hours since their last message'')]],
        logs = [\<lparr>level = INFO, cause = None, format = ''update user: %v now: %v'',
                 args = [1, 100]\<rparr>,
                \<lparr>level = INFO, cause = None, format = ''update user: %v now: %v'',
                 args = [2, 100]\<rparr>,
                \<lparr>level = INFO, cause = None, format = ''telekick started'', args = []\<rparr>],
        ticks = 2\<rparr> \<and>
   fst (handle
     \<lparr>time_Now_at = (\<lambda>n. 100000000000),
      store_failure = (\<lambda>n. if n = 0 then Some (Err ''connection lost'') else None),
      platform = (\<lambda>h r. \<lparr>err = None, data = [],
                    profile = \<lparr>ChatID = 0, Username = [], FirstName = [], LastName = []\<rparr>\<rparr>),
      json_Unmarshal = (\<lambda>body. None),
      Duration_String = (\<lambda>d. [])\<rparr>
     \<lparr>Message = Some \<lparr>Text = ''hi'', Sender = Some \<lparr>ID = 1\<rparr>, UserLeft = None,
                       UserJoined = None\<rparr>\<rparr>
     \<lparr>docs = [], store_calls = [],
      sent = [SetCommands_call
                [(''/when'',
                  ''Show the list of users and number of hours since their last message'')]],
      logs = [], ticks = 0\<rparr>)
   = Some (Format (Err ''connection lost'') ''update user'')"
  by (simp add: Record_def SetCommands_def send_request_def handle_def updateLastMessage_def
      time_Now_def Infof_def Upsert_def collection_call_def Unix_def)

end
